theory Spec2Isabelle
  imports
    Complex_Main
    "HOL-Library.Char_ord"
    "HOL-Library.List_Lexorder"
    "HOL-Library.Product_Lexorder"
    "HOL-Library.Sublist"
    "HOL-Library.Multiset"
    "HOL-Library.Word"
begin

section \<open>Youth Impact tutoring dashboard: filtering and aggregation\<close>

text \<open>
  The dashboard (\<^verbatim>\<open>app.py\<close>) is a top-level script: it loads one table, reads the
  sidebar widgets, narrows the table to \<^verbatim>\<open>filtered_df\<close> and derives every chart and
  table from it. Each derived value of the script is a function here, named as the
  script's variable and taking the values it is computed from.

  A dataframe is the list of its rows, in row order. In the table the script
  works on every cell is present: missing values are modelled where the library
  makes them, in the empty cells of a reshaped table (\<open>None\<close>) and in the cells
  that reading a file leaves without a value (\<open>Nan\<close>).
\<close>

subsection \<open>Data model\<close>

text \<open>
  A \<^verbatim>\<open>datetime.date\<close>, as the date widget returns it, is a day number; a
  timestamp, as \<^verbatim>\<open>pd.to_datetime\<close> returns it, counts nanoseconds.
  \<^verbatim>\<open>pd.to_datetime(d)\<close> of a date is midnight of that day.
\<close>

type_synonym date = int
type_synonym timestamp = int

definition ns_per_day :: int where
  "ns_per_day = 86400000000000"

definition to_datetime :: "date \<Rightarrow> timestamp" where
  "to_datetime d = d * ns_per_day"

text \<open>
  The columns are those of the docstring of \<^verbatim>\<open>load_data\<close>, and \<^verbatim>\<open>week_start\<close>,
  which it adds. The two level columns hold floating-point numbers; their type is
  the parameter \<open>'f\<close>, and the library's floating-point sum and mean are parameters
  of the functions that use them. The counts are the library's 64-bit integers:
  their sums wrap around, and \<open>sint\<close> reads one as the integer it stands for.
\<close>

type_synonym int64 = "64 word"

definition in_int64 :: "int \<Rightarrow> bool" where
  "in_int64 k = (- (2 ^ 63) \<le> k \<and> k < 2 ^ 63)"

record 'f row =
  week :: string
  district :: string
  block :: string
  school :: string
  teachers_registered :: int64
  baseline_assessments :: int64
  endline_assessments :: int64
  baseline_average_level :: 'f
  endline_average_level :: 'f
  tutoring_calls :: int64
  week_start :: timestamp

type_synonym 'f table = "'f row list"

datatype error =
  ValueError | TypeError | KeyError | AttributeError | ParserError | EmptyDataError
  | FileNotFoundError

datatype message = Sidebar_error string | Warning string

subsection \<open>Sidebar filters (\<^verbatim>\<open>filtered_df\<close>)\<close>

text \<open>\<^verbatim>\<open>s.isin(values)\<close>: the row mask of membership.\<close>

definition isin :: "'a \<Rightarrow> 'a list \<Rightarrow> bool" where
  "isin x values = (x \<in> set values)"

text \<open>
  The four steps of the script, each from the table so far to the next. A
  multiselect returns a list, and \<^verbatim>\<open>if districts:\<close> tests that it is not empty.
\<close>

definition filter_by_date :: "date \<Rightarrow> date \<Rightarrow> 'f table \<Rightarrow> 'f table" where
  "filter_by_date start_date end_date df =
     (if start_date > end_date then df
      else filter (\<lambda>r. week_start r \<ge> to_datetime start_date \<and>
                        week_start r \<le> to_datetime end_date) df)"

definition filter_by_district :: "string list \<Rightarrow> 'f table \<Rightarrow> 'f table" where
  "filter_by_district districts df =
     (if districts \<noteq> [] then filter (\<lambda>r. isin (district r) districts) df else df)"

definition filter_by_block :: "string list \<Rightarrow> 'f table \<Rightarrow> 'f table" where
  "filter_by_block blocks df =
     (if blocks \<noteq> [] then filter (\<lambda>r. isin (block r) blocks) df else df)"

definition filter_by_school :: "string list \<Rightarrow> 'f table \<Rightarrow> 'f table" where
  "filter_by_school schools df =
     (if schools \<noteq> [] then filter (\<lambda>r. isin (school r) schools) df else df)"

text \<open>The message the date step shows in the sidebar; the script goes on after it.\<close>

definition date_messages :: "date \<Rightarrow> date \<Rightarrow> message list" where
  "date_messages start_date end_date =
     (if start_date > end_date
      then [Sidebar_error ''Start date cannot be after end date.''] else [])"

text \<open>
  \<^verbatim>\<open>start_date, end_date = date_range\<close> raises \<^verbatim>\<open>ValueError\<close> unless the widget
  returned exactly two dates. The result is the messages shown and the table.
\<close>

definition filtered_df ::
  "'f table \<Rightarrow> string list \<Rightarrow> string list \<Rightarrow> string list \<Rightarrow> date list
     \<Rightarrow> error + (message list \<times> 'f table)" where
  "filtered_df df_analysis districts blocks schools date_range =
     (case date_range of
        [start_date, end_date] \<Rightarrow>
          Inr (date_messages start_date end_date,
               filter_by_school schools
                 (filter_by_block blocks
                   (filter_by_district districts
                     (filter_by_date start_date end_date df_analysis))))
      | _ \<Rightarrow> Inl ValueError)"

text \<open>Applying a list of steps one after the other, the first of the list first.\<close>

definition apply_steps :: "('f table \<Rightarrow> 'f table) list \<Rightarrow> 'f table \<Rightarrow> 'f table" where
  "apply_steps steps df = fold (\<lambda>step t. step t) steps df"

text \<open>The row predicates of the three set filters and of the date range.\<close>

definition in_selection :: "string list \<Rightarrow> string \<Rightarrow> bool" where
  "in_selection selected x = (selected = [] \<or> x \<in> set selected)"

definition in_range :: "date \<Rightarrow> date \<Rightarrow> timestamp \<Rightarrow> bool" where
  "in_range start_date end_date t =
     (to_datetime start_date \<le> t \<and> t \<le> to_datetime end_date)"

text \<open>
  The rows the four steps keep between them: a range whose start is after its end
  keeps every row.
\<close>

definition keep ::
  "date \<Rightarrow> date \<Rightarrow> string list \<Rightarrow> string list \<Rightarrow> string list \<Rightarrow> 'f row \<Rightarrow> bool" where
  "keep start_date end_date districts blocks schools =
     (\<lambda>r. (start_date > end_date \<or> in_range start_date end_date (week_start r)) \<and>
          in_selection districts (district r) \<and>
          in_selection blocks (block r) \<and>
          in_selection schools (school r))"

subsection \<open>Dataframe primitives\<close>

text \<open>
  \<^verbatim>\<open>Series.sum()\<close> over a column of 64-bit integers, as the accumulation it is:
  it wraps around, and of no row it is 0.
\<close>

definition series_sum :: "int64 list \<Rightarrow> int64" where
  "series_sum xs = foldl (\<lambda>acc x. acc + x) 0 xs"

text \<open>
  \<^verbatim>\<open>df.groupby(key)\<close> has one group for each key that occurs, the groups in
  ascending key order, each holding its rows in row order.
\<close>

definition groupby_keys :: "('r \<Rightarrow> 'k::linorder) \<Rightarrow> 'r list \<Rightarrow> 'k list" where
  "groupby_keys key df = sort (remdups (map key df))"

definition group_rows :: "('r \<Rightarrow> 'k) \<Rightarrow> 'k \<Rightarrow> 'r list \<Rightarrow> 'r list" where
  "group_rows key k df = filter (\<lambda>r. key r = k) df"

text \<open>\<^verbatim>\<open>df.groupby(key)[col].sum().reset_index()\<close>, for one column and for two.\<close>

definition groupby_sum ::
  "('r \<Rightarrow> 'k::linorder) \<Rightarrow> ('r \<Rightarrow> int64) \<Rightarrow> 'r list \<Rightarrow> ('k \<times> int64) list" where
  "groupby_sum key col df =
     map (\<lambda>k. (k, series_sum (map col (group_rows key k df)))) (groupby_keys key df)"

definition groupby_sum2 ::
  "('r \<Rightarrow> 'k::linorder) \<Rightarrow> ('r \<Rightarrow> int64) \<Rightarrow> ('r \<Rightarrow> int64) \<Rightarrow> 'r list
     \<Rightarrow> ('k \<times> int64 \<times> int64) list" where
  "groupby_sum2 key col1 col2 df =
     map (\<lambda>k. (k, series_sum (map col1 (group_rows key k df)),
                   series_sum (map col2 (group_rows key k df))))
         (groupby_keys key df)"

text \<open>
  \<^verbatim>\<open>df.groupby(key)[[col1, col2]].mean().reset_index()\<close>; \<open>fmean\<close> is the
  floating-point mean of a group's values.
\<close>

definition groupby_mean2 ::
  "('f list \<Rightarrow> 'f) \<Rightarrow> ('r \<Rightarrow> 'k::linorder) \<Rightarrow> ('r \<Rightarrow> 'f) \<Rightarrow> ('r \<Rightarrow> 'f) \<Rightarrow> 'r list
     \<Rightarrow> ('k \<times> 'f \<times> 'f) list" where
  "groupby_mean2 fmean key col1 col2 df =
     map (\<lambda>k. (k, fmean (map col1 (group_rows key k df)),
                   fmean (map col2 (group_rows key k df))))
         (groupby_keys key df)"

text \<open>
  \<^verbatim>\<open>df.sort_values(col)\<close>, ascending: the rows taken at the positions that the
  library's sorting method returns for the values of the column. The method is
  the parameter \<open>argsort\<close>; the default one does not promise an order for equal
  values. \<open>sorts\<close> says what every sorting method does: it returns the positions
  of the values, each once, in an order in which the values ascend.
\<close>

definition sort_values ::
  "('k list \<Rightarrow> nat list) \<Rightarrow> ('a \<Rightarrow> 'k) \<Rightarrow> 'a list \<Rightarrow> 'a list" where
  "sort_values argsort col df = map (\<lambda>i. df ! i) (argsort (map col df))"

definition sorts :: "('k::linorder list \<Rightarrow> nat list) \<Rightarrow> bool" where
  "sorts argsort =
     (\<forall>ks. mset (argsort ks) = mset [0..<length ks] \<and>
           sorted (map (\<lambda>i. ks ! i) (argsort ks)))"

text \<open>One sorting method, for concrete checks: equal values keep their order.\<close>

definition stable_argsort :: "'k::linorder list \<Rightarrow> nat list" where
  "stable_argsort ks = sort_key (\<lambda>i. ks ! i) [0..<length ks]"

text \<open>
  \<^verbatim>\<open>df.nlargest(n, col)\<close>: the first \<open>n\<close> rows in descending order of \<open>col\<close>; of
  rows with equal values the one that comes first in \<open>df\<close> comes first
  (\<^verbatim>\<open>keep='first'\<close>).
\<close>

fun insort_desc :: "('a \<Rightarrow> 'k::linorder) \<Rightarrow> 'a \<Rightarrow> 'a list \<Rightarrow> 'a list" where
  "insort_desc col x [] = [x]"
| "insort_desc col x (y # ys) =
     (if col x \<ge> col y then x # y # ys else y # insort_desc col x ys)"

definition sort_desc :: "('a \<Rightarrow> 'k::linorder) \<Rightarrow> 'a list \<Rightarrow> 'a list" where
  "sort_desc col df = foldr (insort_desc col) df []"

definition nlargest :: "nat \<Rightarrow> ('a \<Rightarrow> 'k::linorder) \<Rightarrow> 'a list \<Rightarrow> 'a list" where
  "nlargest n col df = take n (sort_desc col df)"

text \<open>
  A table with row and column labels, as reshaping produces it: \<open>cells\<close> has one
  list for each row label, with one entry for each column label.
\<close>

record ('a, 'b, 'v) frame2d =
  row_labels :: "'a list"
  col_labels :: "'b list"
  cells :: "'v list list"

text \<open>
  Reshaping leaves the cell of a pair of labels that no row has empty. When
  that happens the values of the whole table are converted to a type that has
  room for an empty cell; \<open>upcast\<close> is that conversion.
\<close>

definition promote :: "('v \<Rightarrow> 'v) \<Rightarrow> 'v option list list \<Rightarrow> 'v option list list" where
  "promote upcast cs =
     (if list_ex (list_ex (\<lambda>c. c = None)) cs then map (map (map_option upcast)) cs else cs)"

text \<open>
  \<^verbatim>\<open>df.pivot(index, columns, values)\<close> on rows \<open>((index, columns), values)\<close>: it
  raises \<^verbatim>\<open>ValueError\<close> when two rows have the same pair of labels.
\<close>

definition pivot ::
  "('v \<Rightarrow> 'v) \<Rightarrow> (('a::linorder \<times> 'b::linorder) \<times> 'v) list
     \<Rightarrow> error + ('a, 'b, 'v option) frame2d" where
  "pivot upcast long =
     (if \<not> distinct (map fst long) then Inl ValueError
      else Inr \<lparr>row_labels = sort (remdups (map (\<lambda>r. fst (fst r)) long)),
                col_labels = sort (remdups (map (\<lambda>r. snd (fst r)) long)),
                cells = promote upcast
                  (map (\<lambda>a. map (\<lambda>b. map_of long (a, b))
                               (sort (remdups (map (\<lambda>r. snd (fst r)) long))))
                       (sort (remdups (map (\<lambda>r. fst (fst r)) long))))\<rparr>)"

definition fillna :: "'v \<Rightarrow> ('a, 'b, 'v option) frame2d \<Rightarrow> ('a, 'b, 'v) frame2d" where
  "fillna v t =
     \<lparr>row_labels = row_labels t, col_labels = col_labels t,
      cells = map (map (\<lambda>c. case c of None \<Rightarrow> v | Some x \<Rightarrow> x)) (cells t)\<rparr>"

text \<open>
  \<^verbatim>\<open>pd.pivot_table(data, index, columns, values, aggfunc)\<close> with no
  \<^verbatim>\<open>fill_value\<close>, for three different columns: the rows are grouped by the pair of
  labels and \<open>aggfunc\<close> reduces the values of each group; a pair of labels with no
  row has an empty cell.
\<close>

definition pivot_table ::
  "'r list \<Rightarrow> ('r \<Rightarrow> 'a::linorder) \<Rightarrow> ('r \<Rightarrow> 'b::linorder) \<Rightarrow> ('r \<Rightarrow> 'v) \<Rightarrow> ('v list \<Rightarrow> 'w)
     \<Rightarrow> ('w \<Rightarrow> 'w) \<Rightarrow> ('a, 'b, 'w option) frame2d" where
  "pivot_table data index columns values aggfunc upcast =
     \<lparr>row_labels = groupby_keys index data,
      col_labels = groupby_keys columns data,
      cells = promote upcast
        (map (\<lambda>a. map (\<lambda>b.
                 (if group_rows (\<lambda>r. (index r, columns r)) (a, b) data = [] then None
                  else Some (aggfunc (map values
                          (group_rows (\<lambda>r. (index r, columns r)) (a, b) data)))))
                 (groupby_keys columns data))
              (groupby_keys index data))\<rparr>"


subsection \<open>Values of any column\<close>

text \<open>
  A value of a column read by its name: a text, a 64-bit integer, a
  floating-point number, a timestamp or a truth value, or the missing value.
\<close>

datatype 'f cell =
  Str string | Intv int64 | Floatv 'f | Timev timestamp | Boolv bool | Nan

text \<open>
  The order of labels: the order of the values within one kind, the integers as
  signed. A column holds one kind only; between kinds the order is by kind, to
  make it total.
\<close>

fun kind :: "'f cell \<Rightarrow> nat" where
  "kind (Str _) = 0"
| "kind (Intv _) = 1"
| "kind (Floatv _) = 2"
| "kind (Timev _) = 3"
| "kind (Boolv _) = 4"
| "kind Nan = 5"

fun cell_le :: "('f::linorder) cell \<Rightarrow> 'f cell \<Rightarrow> bool" where
  "cell_le (Str a) (Str b) = (a \<le> b)"
| "cell_le (Intv a) (Intv b) = (sint a \<le> sint b)"
| "cell_le (Floatv a) (Floatv b) = (a \<le> b)"
| "cell_le (Timev a) (Timev b) = (a \<le> b)"
| "cell_le (Boolv a) (Boolv b) = (a \<le> b)"
| "cell_le Nan Nan = True"
| "cell_le a b = (kind a < kind b)"

instantiation cell :: (linorder) linorder
begin

definition less_eq_cell :: "'a cell \<Rightarrow> 'a cell \<Rightarrow> bool" where
  "less_eq_cell a b = cell_le a b"

definition less_cell :: "'a cell \<Rightarrow> 'a cell \<Rightarrow> bool" where
  "less_cell a b = (cell_le a b \<and> \<not> cell_le b a)"

instance
proof
  fix x y z :: "'a cell"
  show "(x < y) = (x \<le> y \<and> \<not> y \<le> x)"
    by (simp add: less_cell_def less_eq_cell_def)
  show "x \<le> x"
    by (cases x) (simp_all add: less_eq_cell_def)
  show "x \<le> y \<Longrightarrow> y \<le> z \<Longrightarrow> x \<le> z"
    by (cases x; cases y; cases z) (auto simp: less_eq_cell_def)
  show "x \<le> y \<Longrightarrow> y \<le> x \<Longrightarrow> x = y"
    by (cases x; cases y) (auto simp: less_eq_cell_def dest: signed_word_eqI)
  show "x \<le> y \<or> y \<le> x"
    by (cases x; cases y) (auto simp: less_eq_cell_def)
qed

end

text \<open>
  The conversion of a table of integers that gets an empty cell: each integer
  becomes the floating-point number \<open>to_float\<close> gives for it.
\<close>

fun to_float64 :: "(int64 \<Rightarrow> 'f) \<Rightarrow> 'f cell \<Rightarrow> 'f cell" where
  "to_float64 to_float (Intv n) = Floatv (to_float n)"
| "to_float64 to_float c = c"

subsection \<open>Headline totals\<close>

text \<open>\<^verbatim>\<open>int(s.sum())\<close>: the 64-bit sum, read as a Python integer.\<close>

definition total_teachers :: "'f table \<Rightarrow> int" where
  "total_teachers filtered = sint (series_sum (map teachers_registered filtered))"

definition total_baseline :: "'f table \<Rightarrow> int" where
  "total_baseline filtered = sint (series_sum (map baseline_assessments filtered))"

definition total_endline :: "'f table \<Rightarrow> int" where
  "total_endline filtered = sint (series_sum (map endline_assessments filtered))"

definition total_tutoring :: "'f table \<Rightarrow> int" where
  "total_tutoring filtered = sint (series_sum (map tutoring_calls filtered))"

subsection \<open>Weekly sums\<close>

definition weekly_teachers ::
  "(timestamp list \<Rightarrow> nat list) \<Rightarrow> 'f table \<Rightarrow> (timestamp \<times> int64) list" where
  "weekly_teachers argsort filtered =
     sort_values argsort fst (groupby_sum week_start teachers_registered filtered)"

definition weekly_assessments ::
  "(timestamp list \<Rightarrow> nat list) \<Rightarrow> 'f table \<Rightarrow> (timestamp \<times> int64 \<times> int64) list" where
  "weekly_assessments argsort filtered =
     sort_values argsort fst
       (groupby_sum2 week_start baseline_assessments endline_assessments filtered)"

definition weekly_tutoring_calls ::
  "(timestamp list \<Rightarrow> nat list) \<Rightarrow> 'f table \<Rightarrow> (timestamp \<times> int64) list" where
  "weekly_tutoring_calls argsort filtered =
     sort_values argsort fst (groupby_sum week_start tutoring_calls filtered)"

text \<open>No week's sum of a column leaves the signed 64-bit range.\<close>

definition weeks_fit :: "('f row \<Rightarrow> int64) \<Rightarrow> 'f table \<Rightarrow> bool" where
  "weeks_fit col df =
     list_all (\<lambda>w. in_int64 (\<Sum>r\<leftarrow>group_rows week_start w df. sint (col r)))
       (groupby_keys week_start df)"

subsection \<open>Teacher registrations by group (\<^verbatim>\<open>group_data\<close>, \<^verbatim>\<open>pivot_df\<close>)\<close>

text \<open>The dimension the select box names; anything but the first two is the school.\<close>

definition dimension :: "string \<Rightarrow> 'f row \<Rightarrow> string" where
  "dimension option =
     (if option = ''District'' then district
      else if option = ''Block'' then block
      else school)"

definition group_data ::
  "((timestamp \<times> string) list \<Rightarrow> nat list) \<Rightarrow> string \<Rightarrow> 'f table
     \<Rightarrow> ((timestamp \<times> string) \<times> int64) list" where
  "group_data argsort group_option filtered =
     sort_values argsort fst
       (groupby_sum (\<lambda>r. (week_start r, dimension group_option r))
          teachers_registered filtered)"

text \<open>
  The pivot of the sums, its empty cells filled with 0. The sums are integers;
  where a cell is empty they have become floating-point numbers, and the 0 that
  fills it is one too.
\<close>

definition pivot_df ::
  "((timestamp \<times> string) list \<Rightarrow> nat list) \<Rightarrow> (int64 \<Rightarrow> 'f) \<Rightarrow> string \<Rightarrow> 'f table
     \<Rightarrow> error + (timestamp, string, 'f cell) frame2d" where
  "pivot_df argsort to_float group_option filtered =
     (case pivot (to_float64 to_float)
             (map (\<lambda>(k, v). (k, Intv v)) (group_data argsort group_option filtered)) of
        Inl e \<Rightarrow> Inl e
      | Inr t \<Rightarrow> Inr (fillna (Floatv (to_float 0)) t))"

subsection \<open>Learning levels by group (\<^verbatim>\<open>level_df\<close>)\<close>

definition level_df ::
  "('f list \<Rightarrow> 'f) \<Rightarrow> string \<Rightarrow> ('f::linorder) table \<Rightarrow> (string \<times> 'f \<times> 'f) list" where
  "level_df fmean compare_option filtered =
     (if compare_option = ''District'' then
        groupby_mean2 fmean district baseline_average_level endline_average_level filtered
      else if compare_option = ''Block'' then
        groupby_mean2 fmean block baseline_average_level endline_average_level filtered
      else
        nlargest 20 (\<lambda>g. fst (snd g))
          (groupby_mean2 fmean school baseline_average_level endline_average_level
             filtered))"

subsection \<open>Top schools by tutoring calls\<close>

text \<open>The sums are compared as the signed integers they stand for.\<close>

definition top_schools_tutoring ::
  "(int list \<Rightarrow> nat list) \<Rightarrow> 'f table \<Rightarrow> (string \<times> int64) list" where
  "top_schools_tutoring argsort filtered =
     sort_values argsort (\<lambda>p. sint (snd p))
       (nlargest 10 (\<lambda>p. sint (snd p)) (groupby_sum school tutoring_calls filtered))"


subsection \<open>Pivot table explorer (\<^verbatim>\<open>pivot_data\<close>)\<close>

text \<open>
  The three select boxes offer the names of the table's columns. A column read by
  name gives values of the column's own kind.
\<close>

datatype column =
  Week | District | Block | School | Teachers_registered | Baseline_assessments
  | Endline_assessments | Baseline_average_level | Endline_average_level
  | Tutoring_calls | Week_start

fun get :: "column \<Rightarrow> 'f row \<Rightarrow> 'f cell" where
  "get Week r = Str (week r)"
| "get District r = Str (district r)"
| "get Block r = Str (block r)"
| "get School r = Str (school r)"
| "get Teachers_registered r = Intv (teachers_registered r)"
| "get Baseline_assessments r = Intv (baseline_assessments r)"
| "get Endline_assessments r = Intv (endline_assessments r)"
| "get Baseline_average_level r = Floatv (baseline_average_level r)"
| "get Endline_average_level r = Floatv (endline_average_level r)"
| "get Tutoring_calls r = Intv (tutoring_calls r)"
| "get Week_start r = Timev (week_start r)"

text \<open>
  The type of a column. That of the text columns depends on the version of the
  library, the generic object type or its own string type, and is the parameter
  \<open>text_dtype\<close>.
\<close>

datatype dtype = Object | String_dtype | Int64 | Float64 | Datetime64

fun column_dtype :: "dtype \<Rightarrow> column \<Rightarrow> dtype" where
  "column_dtype text_dtype Teachers_registered = Int64"
| "column_dtype text_dtype Baseline_assessments = Int64"
| "column_dtype text_dtype Endline_assessments = Int64"
| "column_dtype text_dtype Tutoring_calls = Int64"
| "column_dtype text_dtype Baseline_average_level = Float64"
| "column_dtype text_dtype Endline_average_level = Float64"
| "column_dtype text_dtype Week_start = Datetime64"
| "column_dtype text_dtype _ = text_dtype"

text \<open>
  \<^verbatim>\<open>np.issubdtype(dtype, np.number)\<close> holds of the integer and the floating-point
  type, not of the object type nor of the timestamps; the library's own string
  type is none that it can interpret, and it raises \<^verbatim>\<open>TypeError\<close>.
\<close>

fun issubdtype_number :: "dtype \<Rightarrow> error + bool" where
  "issubdtype_number Int64 = Inr True"
| "issubdtype_number Float64 = Inr True"
| "issubdtype_number String_dtype = Inl TypeError"
| "issubdtype_number _ = Inr False"

text \<open>
  \<^verbatim>\<open>np.sum\<close> over the values of a group of a numeric column: the wrapping sum of
  the integers, or the floating-point sum \<open>fsum\<close>.
\<close>

definition np_sum :: "('f list \<Rightarrow> 'f) \<Rightarrow> dtype \<Rightarrow> 'f cell list \<Rightarrow> 'f cell" where
  "np_sum fsum t vs =
     (if t = Int64 then Intv (series_sum [n. Intv n \<leftarrow> vs])
      else Floatv (fsum [x. Floatv x \<leftarrow> vs]))"

definition values_field_warning :: string where
  "values_field_warning =
     ''Please select a numeric field for '' @ [CHR 0x27] @ ''Values Field'' @ [CHR 0x27] @ ''.''"

text \<open>
  The explorer shows the warning and no table when the values column is not
  numeric; otherwise the pivot table, as \<^verbatim>\<open>pd.pivot_table\<close> returns it.
  \<^verbatim>\<open>pd.pivot_table\<close> raises \<^verbatim>\<open>ValueError\<close> when two of the three fields are the
  same column.
\<close>

definition pivot_data ::
  "('f list \<Rightarrow> 'f) \<Rightarrow> (int64 \<Rightarrow> 'f) \<Rightarrow> dtype \<Rightarrow> column \<Rightarrow> column \<Rightarrow> column
     \<Rightarrow> ('f::linorder) table
     \<Rightarrow> error + (message + ('f cell, 'f cell, 'f cell option) frame2d)" where
  "pivot_data fsum to_float text_dtype pivot_index pivot_columns pivot_values filtered =
     (case issubdtype_number (column_dtype text_dtype pivot_values) of
        Inl e \<Rightarrow> Inl e
      | Inr False \<Rightarrow> Inr (Inl (Warning values_field_warning))
      | Inr True \<Rightarrow>
          if pivot_index = pivot_columns \<or> pivot_values = pivot_index
             \<or> pivot_values = pivot_columns
          then Inl ValueError
          else Inr (Inr (pivot_table filtered (get pivot_index) (get pivot_columns)
                 (get pivot_values) (np_sum fsum (column_dtype text_dtype pivot_values))
                 (to_float64 to_float))))"

subsection \<open>Export and loading (\<^verbatim>\<open>csv_data\<close>, \<^verbatim>\<open>load_data\<close>)\<close>





text \<open>
  What the library's writer and reader of CSV files do with a single value is a
  parameter: the texts that stand for a missing value, how a number and a
  timestamp are printed, which texts are read as an integer, as a
  floating-point number and as a truth value, and how \<^verbatim>\<open>pd.to_datetime\<close> reads
  a column of texts (\<open>None\<close> in the column is a missing value, \<open>None\<close> as the
  result is the exception it raises).
\<close>

record 'f library =
  na_values :: "string list"
  str_int :: "int64 \<Rightarrow> string"
  str_float :: "'f \<Rightarrow> string"
  str_datetime :: "timestamp \<Rightarrow> string"
  read_int :: "string \<Rightarrow> int64 option"
  read_float :: "string \<Rightarrow> 'f option"
  read_bool :: "string \<Rightarrow> bool option"
  read_dates :: "string option list \<Rightarrow> timestamp option list option"




text \<open>
  \<^verbatim>\<open>pd.read_csv\<close> with its defaults. A line shorter than the header lacks the
  values of its last columns; a field is missing when it is not there or is one
  of the texts for a missing value.
\<close>

definition field :: "string list \<Rightarrow> nat \<Rightarrow> string option" where
  "field line j = (if j < length line then Some (line ! j) else None)"

definition missing :: "'f library \<Rightarrow> string option \<Rightarrow> bool" where
  "missing lib f = (case f of None \<Rightarrow> True | Some s \<Rightarrow> s \<in> set (na_values lib))"

definition present :: "'f library \<Rightarrow> string option list \<Rightarrow> string list" where
  "present lib col = List.map_filter (\<lambda>f. if missing lib f then None else f) col"

text \<open>
  The reader decides for each column, from all its fields, how to read it: as
  integers when every field is there and is an integer; else as floating-point
  numbers when every field that is there is a number; else as truth values when
  every field that is there is one; else as text. A column of no field is text.
\<close>

datatype reading = As_int | As_float | As_bool | As_text

definition infer :: "'f library \<Rightarrow> string option list \<Rightarrow> reading" where
  "infer lib col =
     (if col = [] then As_text
      else if list_all (\<lambda>s. read_int lib s \<noteq> None) (present lib col)
              \<and> \<not> list_ex (missing lib) col then As_int
      else if list_all (\<lambda>s. read_float lib s \<noteq> None) (present lib col) then As_float
      else if list_all (\<lambda>s. read_bool lib s \<noteq> None) (present lib col) then As_bool
      else As_text)"











text \<open>
  The values of a text column are none of the texts for a missing value (as in
  every table that was loaded), and the reader reads the column as text: one of
  its values is not a number, and one is not a truth value.
\<close>

definition stays_text :: "'f library \<Rightarrow> string list \<Rightarrow> bool" where
  "stays_text lib vals =
     (list_all (\<lambda>s. s \<notin> set (na_values lib)) vals \<and> infer lib (map Some vals) = As_text)"


subsection \<open>Tables for concrete checks\<close>

text \<open>The mean in exact arithmetic, standing in for the floating-point mean.\<close>

definition mean :: "rat list \<Rightarrow> rat" where
  "mean xs = sum_list xs / of_nat (length xs)"

text \<open>
  Three weeks as the table names them, each with the day number (days since
  1970-01-01) of its first day, and rows made of them.
\<close>

definition week1 :: "string \<times> date" where
  "week1 = (''2024-01-01/2024-01-07'', 19723)"

definition week2 :: "string \<times> date" where
  "week2 = (''2024-01-08/2024-01-14'', 19730)"

definition week3 :: "string \<times> date" where
  "week3 = (''2024-01-15/2024-01-21'', 19737)"

definition mk_row ::
  "string \<times> date \<Rightarrow> string \<Rightarrow> string \<Rightarrow> string \<Rightarrow> int64 \<Rightarrow> int64 \<Rightarrow> rat \<Rightarrow> rat
     \<Rightarrow> rat row" where
  "mk_row w d b s t c bl el =
     \<lparr>week = fst w, district = d, block = b, school = s, teachers_registered = t,
      baseline_assessments = 0, endline_assessments = 0,
      baseline_average_level = bl, endline_average_level = el,
      tutoring_calls = c, week_start = to_datetime (snd w)\<rparr>"

definition sample :: "rat table" where
  "sample =
     [mk_row week1 ''A'' ''B1'' ''S1'' 5 10 (6 / 5) 2,
      mk_row week2 ''B'' ''B2'' ''S2'' 3 6 (3 / 2) (23 / 10),
      mk_row week2 ''A'' ''B1'' ''S3'' 2 4 1 (3 / 2),
      mk_row week3 ''A'' ''B1'' ''S1'' 1 7 2 (5 / 2)]"

definition two_rows :: "rat table" where
  "two_rows = [sample ! 0, sample ! 1]"

definition levels_table :: "rat table" where
  "levels_table =
     map (\<lambda>(s, bl, el). mk_row week1 ''D'' ''B'' s 0 0 bl el)
       [(''S01'', 3, 4), (''S02'', 1, 2), (''S03'', 2, 3), (''S04'', 5, 5), (''S05'', 4, 5),
        (''S06'', 6, 7), (''S07'', 7, 8), (''S08'', 8, 9), (''S09'', 9, 9), (''S10'', 10, 11),
        (''S11'', 11, 12), (''S12'', 12, 13), (''S13'', 13, 14), (''S14'', 14, 15),
        (''S15'', 15, 16), (''S16'', 16, 17), (''S17'', 17, 18), (''S18'', 18, 19),
        (''S19'', 19, 20), (''S20'', 20, 21), (''S21'', 21, 22)] @
     [mk_row week2 ''D'' ''B'' ''S01'' 0 0 5 6]"

text \<open>
  Eleven schools; the first and the seventh both have 5 calls in all, every
  other school has a sum of its own.
\<close>

definition calls_table :: "rat table" where
  "calls_table =
     map (\<lambda>(w, s, c). mk_row w ''D'' ''B'' s 0 c 1 2)
       [(week1, ''S05'', 8), (week1, ''S01'', 5), (week1, ''S07'', 2), (week1, ''S03'', 15),
        (week1, ''S02'', 9), (week1, ''S04'', 7), (week1, ''S06'', 6), (week2, ''S07'', 3),
        (week1, ''S08'', 10), (week1, ''S11'', 13), (week1, ''S09'', 11),
        (week1, ''S10'', 12)]"

text \<open>
  Two rows of one school in one week whose counts are \<open>2 ^ 62\<close> each, and a
  table of that school's two rows and ten more schools with 1 to 10 calls.
\<close>

definition big :: "rat table" where
  "big =
     [mk_row week1 ''D'' ''B'' ''S00'' 4611686018427387904 4611686018427387904 1 2,
      mk_row week1 ''D'' ''B'' ''S00'' 4611686018427387904 4611686018427387904 1 2]"

definition big_calls :: "rat table" where
  "big_calls =
     big @ map (\<lambda>(s, c). mk_row week1 ''D'' ''B'' s 0 c 1 2)
       [(''S01'', 1), (''S02'', 2), (''S03'', 3), (''S04'', 4), (''S05'', 5), (''S06'', 6),
        (''S07'', 7), (''S08'', 8), (''S09'', 9), (''S10'', 10)]"
















section \<open>Properties of the filters\<close>

lemma filter_by_district_eq:
  "filter_by_district ds df = filter (\<lambda>r. in_selection ds (district r)) df"
  by (simp add: filter_by_district_def in_selection_def isin_def)

lemma filter_by_block_eq:
  "filter_by_block bs df = filter (\<lambda>r. in_selection bs (block r)) df"
  by (simp add: filter_by_block_def in_selection_def isin_def)

lemma filter_by_school_eq:
  "filter_by_school ss df = filter (\<lambda>r. in_selection ss (school r)) df"
  by (simp add: filter_by_school_def in_selection_def isin_def)

lemma filter_by_date_eq:
  "filter_by_date s e df = filter (\<lambda>r. s > e \<or> in_range s e (week_start r)) df"
  by (simp add: filter_by_date_def in_range_def)

lemma filtered_df_filter:
  "filtered_df df ds bs ss [s, e] = Inr (date_messages s e, filter (keep s e ds bs ss) df)"
  by (simp add: filtered_df_def filter_by_date_eq filter_by_district_eq filter_by_block_eq
      filter_by_school_eq keep_def)

text \<open>
  C1. With a range \<open>start \<le> end\<close>, the filtered table is the rows of the loaded
  table, in their order, whose \<open>week_start\<close> is in the range (both ends included,
  the two dates taken at midnight) and whose district, block and school are each
  in the selected list, an empty list restricting nothing. No message is shown.
\<close>

theorem filtered_df_exact:
  "start_date \<le> end_date \<Longrightarrow>
   filtered_df df districts blocks schools [start_date, end_date] =
     Inr ([], filter (\<lambda>r. (to_datetime start_date \<le> week_start r \<and>
                            week_start r \<le> to_datetime end_date) \<and>
                           (districts = [] \<or> district r \<in> set districts) \<and>
                           (blocks = [] \<or> block r \<in> set blocks) \<and>
                           (schools = [] \<or> school r \<in> set schools)) df)"
  by (simp add: filtered_df_filter date_messages_def keep_def in_range_def in_selection_def)

theorem filtered_df_exact_witness:
  "(19723::int) \<le> 19730 \<and>
   filtered_df sample [''A''] [] [''S1'', ''S3''] [19723, 19730] =
     Inr ([], [sample ! 0, sample ! 2])"
  using filtered_df_exact [of 19723 19730 sample "[''A'']" "[]" "[''S1'', ''S3'']"]
  by (simp add: sample_def mk_row_def week1_def week2_def week3_def to_datetime_def
      ns_per_day_def)

text \<open>
  C3. With a range whose start is after its end, the script shows its message in
  the sidebar and goes on (the result is a table, not an error); no row is
  dropped for its date, and the district, block and school selections apply as
  they do otherwise.
\<close>

theorem filtered_df_invalid_range:
  "start_date > end_date \<Longrightarrow>
   filtered_df df districts blocks schools [start_date, end_date] =
     Inr ([Sidebar_error ''Start date cannot be after end date.''],
          filter (\<lambda>r. (districts = [] \<or> district r \<in> set districts) \<and>
                       (blocks = [] \<or> block r \<in> set blocks) \<and>
                       (schools = [] \<or> school r \<in> set schools)) df)"
  by (simp add: filtered_df_filter date_messages_def keep_def in_selection_def)

theorem filtered_df_invalid_range_witness:
  "(19730::int) > 19723 \<and>
   filtered_df sample [''A''] [] [''S1''] [19730, 19723] =
     Inr ([Sidebar_error ''Start date cannot be after end date.''],
          [sample ! 0, sample ! 3])"
  using filtered_df_invalid_range [of 19723 19730 sample "[''A'']" "[]" "[''S1'']"]
  by (simp add: sample_def mk_row_def)

text \<open>
  C6. With a range \<open>start \<le> end\<close>, the filtered table is a subsequence of the
  loaded table (so its rows are rows of the loaded table), and filtering it
  again with the same selections and range returns it unchanged.
\<close>

theorem filtered_df_idempotent:
  "start_date \<le> end_date \<Longrightarrow>
   filtered_df df districts blocks schools [start_date, end_date] = Inr (msgs, out) \<Longrightarrow>
   subseq out df \<and> set out \<subseteq> set df \<and>
   filtered_df out districts blocks schools [start_date, end_date] = Inr (msgs, out)"
  by (auto simp: filtered_df_filter)

theorem filtered_df_idempotent_witness:
  "(19723::int) \<le> 19730 \<and>
   filtered_df sample [''A''] [] [] [19723, 19730] = Inr ([], [sample ! 0, sample ! 2]) \<and>
   subseq [sample ! 0, sample ! 2] sample \<and>
   filtered_df [sample ! 0, sample ! 2] [''A''] [] [] [19723, 19730] =
     Inr ([], [sample ! 0, sample ! 2])"
proof -
  have range: "(19723::int) \<le> 19730" by simp
  have run: "filtered_df sample [''A''] [] [] [19723, 19730] =
     Inr ([], [sample ! 0, sample ! 2])"
    by (simp add: filtered_df_filter date_messages_def keep_def in_range_def in_selection_def
        sample_def mk_row_def week1_def week2_def week3_def to_datetime_def ns_per_day_def)
  from filtered_df_idempotent [OF range run] range run show ?thesis by simp
qed

lemma step_comm:
  "filter P \<circ> filter Q = filter Q \<circ> filter P"
  by (auto simp: fun_eq_iff intro: filter_cong)

lemma steps_are_filters:
  "c \<in> set [filter_by_date s e, filter_by_district ds, filter_by_block bs, filter_by_school ss]
   \<Longrightarrow> \<exists>P. c = filter P"
  by (auto simp: fun_eq_iff filter_by_date_eq filter_by_district_eq filter_by_block_eq
      filter_by_school_eq)

text \<open>
  C9. The four steps applied in any order (any list that is a permutation of the
  four) give the table that the script's order gives: date, district, block,
  school.
\<close>

theorem filter_order_irrelevant:
  "mset steps = mset [filter_by_date start_date end_date, filter_by_district districts,
                      filter_by_block blocks, filter_by_school schools] \<Longrightarrow>
   filtered_df df districts blocks schools [start_date, end_date] =
     Inr (date_messages start_date end_date, apply_steps steps df)"
proof -
  let ?code = "[filter_by_date start_date end_date, filter_by_district districts,
                filter_by_block blocks, filter_by_school schools]"
  assume perm: "mset steps = mset ?code"
  have comm: "(\<lambda>step t. step t) x \<circ> (\<lambda>step t. step t) y = (\<lambda>step t. step t) y \<circ> (\<lambda>step t. step t) x"
    if "x \<in> set ?code" "y \<in> set ?code" for x y :: "'a table \<Rightarrow> 'a table"
  proof -
    from steps_are_filters [OF that(1)] steps_are_filters [OF that(2)]
    obtain P Q where "x = filter P" "y = filter Q" by blast
    then show ?thesis by (simp add: step_comm)
  qed
  have "fold (\<lambda>step t. step t) ?code = fold (\<lambda>step t. step t) steps"
    by (rule fold_multiset_equiv [OF comm perm [symmetric]])
  then have "apply_steps steps df = apply_steps ?code df"
    by (simp only: apply_steps_def)
  then show ?thesis
    by (simp add: filtered_df_def apply_steps_def)
qed

theorem filter_order_irrelevant_witness:
  "mset [filter_by_school [''S1''], filter_by_block [], filter_by_date 19723 19730,
         filter_by_district [''A'']] =
   mset [filter_by_date 19723 19730, filter_by_district [''A''], filter_by_block [],
         filter_by_school [''S1'']] \<and>
   filtered_df sample [''A''] [] [''S1''] [19723, 19730] =
     Inr ([], apply_steps [filter_by_school [''S1''], filter_by_block [],
                           filter_by_date 19723 19730, filter_by_district [''A'']] sample) \<and>
   apply_steps [filter_by_school [''S1''], filter_by_block [], filter_by_date 19723 19730,
                filter_by_district [''A'']] sample = [sample ! 0]"
proof -
  have perm:
    "mset [filter_by_school [''S1''], filter_by_block [], filter_by_date 19723 19730,
           filter_by_district [''A'']] =
     mset [filter_by_date 19723 19730, filter_by_district [''A''], filter_by_block [],
           filter_by_school [''S1''] :: rat table \<Rightarrow> rat table]"
    by (simp add: add_mset_commute)
  have run:
    "apply_steps [filter_by_school [''S1''], filter_by_block [], filter_by_date 19723 19730,
                  filter_by_district [''A'']] sample = [sample ! 0]"
    by (simp add: apply_steps_def filter_by_date_eq filter_by_district_eq filter_by_block_eq
        filter_by_school_eq in_range_def in_selection_def sample_def mk_row_def
        week1_def week2_def week3_def to_datetime_def ns_per_day_def)
  from filter_order_irrelevant [OF perm, of sample] perm run show ?thesis
    by (simp add: date_messages_def)
qed

subsection \<open>Sums of 64-bit integers\<close>

lemma series_sum_acc: "foldl (\<lambda>acc x. acc + x) a xs = a + sum_list xs" for a :: int64
  by (induction xs arbitrary: a) (simp_all add: add.assoc)

lemma series_sum_eq: "series_sum xs = sum_list xs"
  by (simp add: series_sum_def series_sum_acc)

lemma word_of_int_sum_sint: "word_of_int (sum_list (map sint ws)) = sum_list ws"
  by (induction ws) simp_all

lemma sint_sum_list:
  "sint (sum_list ws) = signed_take_bit 63 (sum_list (map sint ws))" for ws :: "int64 list"
proof -
  have "sint (sum_list ws) = sint (word_of_int (sum_list (map sint ws)) :: int64)"
    by (simp only: word_of_int_sum_sint)
  then show ?thesis by (simp add: sint_sbintrunc')
qed

lemma sint_series_sum:
  "sint (series_sum (map col rs)) = signed_take_bit 63 (\<Sum>r\<leftarrow>rs. sint (col r))"
  by (simp add: series_sum_eq sint_sum_list comp_def)

lemma wrap_in_int64: "in_int64 k \<Longrightarrow> signed_take_bit 63 k = k"
  by (simp add: in_int64_def signed_take_bit_int_eq_self)

lemma series_sum_Nil: "series_sum [] = 0"
  by (simp add: series_sum_def)

lemma sint_series_sum_exact:
  "in_int64 (\<Sum>r\<leftarrow>rs. sint (col r)) \<Longrightarrow>
   sint (series_sum (map col rs)) = (\<Sum>r\<leftarrow>rs. sint (col r))"
  by (simp add: sint_series_sum wrap_in_int64)

text \<open>
  C10, as it is stated, fails where a sum leaves the 64-bit range: of two rows
  with \<open>2 ^ 62\<close> teachers each the total shown is \<open>- 2 ^ 63\<close>, the sum of the column is
  \<open>2 ^ 63\<close>.
\<close>

theorem kpi_totals_overflow:
  "total_teachers big = - 9223372036854775808 \<and>
   (\<Sum>r\<leftarrow>big. sint (teachers_registered r)) = 9223372036854775808"
  by code_simp

text \<open>
  C10, amended. Each of the four headline totals is the sum of its column over
  the rows of the filtered table, wrapped into the signed 64-bit range; it is
  that sum whenever the sum lies in the range. Of a filtered table with no row
  each total is 0. The totals are total functions: on no table do they fail.
\<close>

theorem kpi_totals_wrapped:
  "total_teachers filtered = signed_take_bit 63 (\<Sum>r\<leftarrow>filtered. sint (teachers_registered r)) \<and>
   total_baseline filtered = signed_take_bit 63 (\<Sum>r\<leftarrow>filtered. sint (baseline_assessments r)) \<and>
   total_endline filtered = signed_take_bit 63 (\<Sum>r\<leftarrow>filtered. sint (endline_assessments r)) \<and>
   total_tutoring filtered = signed_take_bit 63 (\<Sum>r\<leftarrow>filtered. sint (tutoring_calls r)) \<and>
   (in_int64 (\<Sum>r\<leftarrow>filtered. sint (teachers_registered r)) \<longrightarrow>
      total_teachers filtered = (\<Sum>r\<leftarrow>filtered. sint (teachers_registered r))) \<and>
   (in_int64 (\<Sum>r\<leftarrow>filtered. sint (baseline_assessments r)) \<longrightarrow>
      total_baseline filtered = (\<Sum>r\<leftarrow>filtered. sint (baseline_assessments r))) \<and>
   (in_int64 (\<Sum>r\<leftarrow>filtered. sint (endline_assessments r)) \<longrightarrow>
      total_endline filtered = (\<Sum>r\<leftarrow>filtered. sint (endline_assessments r))) \<and>
   (in_int64 (\<Sum>r\<leftarrow>filtered. sint (tutoring_calls r)) \<longrightarrow>
      total_tutoring filtered = (\<Sum>r\<leftarrow>filtered. sint (tutoring_calls r))) \<and>
   total_teachers [] = 0 \<and> total_baseline [] = 0 \<and> total_endline [] = 0 \<and>
   total_tutoring [] = 0"
  by (simp add: total_teachers_def total_baseline_def total_endline_def total_tutoring_def
      sint_series_sum wrap_in_int64 series_sum_Nil del: map_is_Nil_conv)

lemma sample_teachers:
  "in_int64 (\<Sum>r\<leftarrow>sample. sint (teachers_registered r)) \<and>
   (\<Sum>r\<leftarrow>sample. sint (teachers_registered r)) = 11"
  by code_simp

theorem kpi_totals_wrapped_witness:
  "in_int64 (\<Sum>r\<leftarrow>sample. sint (teachers_registered r)) \<and> total_teachers sample = 11"
proof -
  have "in_int64 (\<Sum>r\<leftarrow>sample. sint (teachers_registered r)) \<longrightarrow>
      total_teachers sample = (\<Sum>r\<leftarrow>sample. sint (teachers_registered r))"
    using kpi_totals_wrapped [of sample] by blast
  with sample_teachers show ?thesis by auto
qed

section \<open>Properties of the aggregations\<close>

subsection \<open>Sorting\<close>

lemma sorts_stable_argsort: "sorts stable_argsort"
  by (simp add: sorts_def stable_argsort_def)

lemma argsort_positions:
  assumes "sorts argsort" and "i \<in> set (argsort ks)"
  shows "i < length ks"
proof -
  from assms(1) have "mset (argsort ks) = mset [0..<length ks]"
    by (simp add: sorts_def)
  then have "set (argsort ks) = set [0..<length ks]"
    by (rule mset_eq_setD)
  with assms(2) show ?thesis by simp
qed

lemma mset_sort_values:
  assumes "sorts argsort"
  shows "mset (sort_values argsort col df) = mset df"
proof -
  from assms have perm: "mset (argsort (map col df)) = mset [0..<length (map col df)]"
    unfolding sorts_def by blast
  have "mset (sort_values argsort col df) =
        image_mset (\<lambda>i. df ! i) (mset (argsort (map col df)))"
    by (simp only: sort_values_def mset_map)
  also have "\<dots> = image_mset (\<lambda>i. df ! i) (mset [0..<length df])"
    by (simp only: perm length_map)
  also have "\<dots> = mset (map (\<lambda>i. df ! i) [0..<length df])"
    by (simp only: mset_map)
  also have "\<dots> = mset df"
    by (simp only: map_nth)
  finally show ?thesis .
qed

lemma set_sort_values: "sorts argsort \<Longrightarrow> set (sort_values argsort col df) = set df"
  using mset_sort_values [of argsort col df, THEN arg_cong, of set_mset] by simp


lemma sorted_sort_values:
  assumes "sorts argsort"
  shows "sorted (map col (sort_values argsort col df))"
proof -
  have "map col (sort_values argsort col df) =
        map (\<lambda>i. map col df ! i) (argsort (map col df))"
    using argsort_positions [OF assms, of _ "map col df"]
    by (simp add: sort_values_def)
  with assms show ?thesis by (simp add: sorts_def)
qed

text \<open>A table whose values ascend with none twice has one sorted order, its own.\<close>

lemma sort_values_sorted_distinct:
  assumes "sorts argsort" and "sorted (map col df)" and "distinct (map col df)"
  shows "sort_values argsort col df = df"
proof -
  let ?out = "sort_values argsort col df"
  have m: "mset (map col ?out) = mset (map col df)"
    by (simp add: mset_sort_values [OF assms(1)])
  then have "distinct (map col ?out)"
    using assms(3) by (metis mset_eq_imp_distinct_iff)
  moreover have "set (map col ?out) = set (map col df)"
    using m by (rule mset_eq_setD)
  ultimately have eq: "map col ?out = map col df"
    using sorted_sort_values [OF assms(1), of col df] assms(2,3)
    by (intro sorted_distinct_set_unique) auto
  have "inj_on col (set ?out \<union> set df)"
    using assms(3) by (simp add: set_sort_values [OF assms(1)] distinct_map)
  with eq show ?thesis
    by (simp add: inj_on_map_eq_map)
qed


subsection \<open>Grouping\<close>

lemma groupby_keys_sorted_list:
  "groupby_keys key df = sorted_list_of_set (key ` set df)"
  by (simp add: groupby_keys_def sorted_list_of_set_sort_remdups [symmetric])

lemma set_groupby_keys: "set (groupby_keys key df) = key ` set df"
  by (simp add: groupby_keys_def)

lemma distinct_groupby_keys: "distinct (groupby_keys key df)"
  by (simp add: groupby_keys_def)

lemma sorted_groupby_keys: "sorted (groupby_keys key df)"
  by (simp add: groupby_keys_def)

lemma length_groupby_keys: "length (groupby_keys key df) = card (key ` set df)"
  using distinct_card [OF distinct_groupby_keys, of key df]
  by (simp add: set_groupby_keys)

lemma map_fst_groupby_sum: "map fst (groupby_sum key col df) = groupby_keys key df"
  by (simp add: groupby_sum_def comp_def)

lemma map_fst_groupby_sum2:
  "map fst (groupby_sum2 key col1 col2 df) = groupby_keys key df"
  by (simp add: groupby_sum2_def comp_def)

lemma map_fst_groupby_mean2:
  "map fst (groupby_mean2 fmean key col1 col2 df) = groupby_keys key df"
  by (simp add: groupby_mean2_def comp_def)

text \<open>Sorting the groups by their keys leaves them as they are.\<close>

lemma sort_values_groups:
  "sorts argsort \<Longrightarrow> map fst G = groupby_keys key df \<Longrightarrow> sort_values argsort fst G = G"
  by (rule sort_values_sorted_distinct)
    (simp_all add: sorted_groupby_keys distinct_groupby_keys)

text \<open>The sums of the groups add up to the sum of the column.\<close>

lemma sum_over_groups:
  fixes col :: "'r \<Rightarrow> 'a::comm_monoid_add"
  assumes "finite K" "key ` set df \<subseteq> K"
  shows "(\<Sum>k\<in>K. sum_list (map col (group_rows key k df))) = sum_list (map col df)"
  using assms(2)
proof (induction df)
  case Nil
  then show ?case by (simp add: group_rows_def)
next
  case (Cons r df)
  have "(\<Sum>k\<in>K. sum_list (map col (group_rows key k (r # df)))) =
        (\<Sum>k\<in>K. (if k = key r then col r else 0) + sum_list (map col (group_rows key k df)))"
    by (rule sum.cong) (auto simp: group_rows_def)
  also have "\<dots> = (\<Sum>k\<in>K. if k = key r then col r else 0) +
                   (\<Sum>k\<in>K. sum_list (map col (group_rows key k df)))"
    by (simp add: sum.distrib)
  also have "(\<Sum>k\<in>K. if k = key r then col r else 0) = col r"
    using assms(1) Cons.prems by simp
  finally show ?case using Cons by simp
qed

lemma sum_list_groups:
  fixes col :: "'r \<Rightarrow> 'a::comm_monoid_add"
  shows "(\<Sum>k\<leftarrow>groupby_keys key df. sum_list (map col (group_rows key k df))) =
         sum_list (map col df)"
proof -
  have "(\<Sum>k\<leftarrow>groupby_keys key df. sum_list (map col (group_rows key k df))) =
        (\<Sum>k\<in>set (groupby_keys key df). sum_list (map col (group_rows key k df)))"
    by (rule sum_list_distinct_conv_sum_set [OF distinct_groupby_keys])
  also have "\<dots> = sum_list (map col df)"
    by (rule sum_over_groups) (simp_all add: set_groupby_keys)
  finally show ?thesis .
qed

lemma sum_snd_groupby_sum:
  "(\<Sum>p\<leftarrow>groupby_sum key col df. snd p) = sum_list (map col df)"
  using sum_list_groups [where key=key and col=col and df=df]
  by (simp add: groupby_sum_def comp_def series_sum_eq)

lemma sum_groupby_sum2_fst:
  "(\<Sum>p\<leftarrow>groupby_sum2 key col1 col2 df. fst (snd p)) = sum_list (map col1 df)"
  using sum_list_groups [where key=key and col=col1 and df=df]
  by (simp add: groupby_sum2_def comp_def series_sum_eq)

lemma sum_groupby_sum2_snd:
  "(\<Sum>p\<leftarrow>groupby_sum2 key col1 col2 df. snd (snd p)) = sum_list (map col2 df)"
  using sum_list_groups [where key=key and col=col2 and df=df]
  by (simp add: groupby_sum2_def comp_def series_sum_eq)

text \<open>
  Read as integers, the sums of the groups add up to the sum of the column when
  no group's sum leaves the range.
\<close>

lemma sum_sint_groups:
  assumes "list_all (\<lambda>k. in_int64 (\<Sum>r\<leftarrow>group_rows key k df. sint (col r)))
             (groupby_keys key df)"
  shows "(\<Sum>k\<leftarrow>groupby_keys key df. sint (series_sum (map col (group_rows key k df)))) =
         (\<Sum>r\<leftarrow>df. sint (col r))"
proof -
  have "map (\<lambda>k. sint (series_sum (map col (group_rows key k df)))) (groupby_keys key df) =
        map (\<lambda>k. \<Sum>r\<leftarrow>group_rows key k df. sint (col r)) (groupby_keys key df)"
    using assms by (auto simp: list_all_iff sint_series_sum_exact)
  then have "(\<Sum>k\<leftarrow>groupby_keys key df. sint (series_sum (map col (group_rows key k df)))) =
        (\<Sum>k\<leftarrow>groupby_keys key df. \<Sum>r\<leftarrow>group_rows key k df. sint (col r))"
    by (rule arg_cong)
  also have "\<dots> = (\<Sum>r\<leftarrow>df. sint (col r))"
    using sum_list_groups [where key=key and col="\<lambda>r. sint (col r)" and df=df] .
  finally show ?thesis .
qed

lemma sum_sint_groupby_sum:
  "list_all (\<lambda>k. in_int64 (\<Sum>r\<leftarrow>group_rows key k df. sint (col r))) (groupby_keys key df) \<Longrightarrow>
   (\<Sum>p\<leftarrow>groupby_sum key col df. sint (snd p)) = (\<Sum>r\<leftarrow>df. sint (col r))"
  using sum_sint_groups [where key=key and df=df and col=col] by (simp add: groupby_sum_def comp_def)

lemma sum_sint_groupby_sum2_fst:
  "list_all (\<lambda>k. in_int64 (\<Sum>r\<leftarrow>group_rows key k df. sint (col1 r))) (groupby_keys key df) \<Longrightarrow>
   (\<Sum>p\<leftarrow>groupby_sum2 key col1 col2 df. sint (fst (snd p))) = (\<Sum>r\<leftarrow>df. sint (col1 r))"
  using sum_sint_groups [where key=key and df=df and col=col1] by (simp add: groupby_sum2_def comp_def)

lemma sum_sint_groupby_sum2_snd:
  "list_all (\<lambda>k. in_int64 (\<Sum>r\<leftarrow>group_rows key k df. sint (col2 r))) (groupby_keys key df) \<Longrightarrow>
   (\<Sum>p\<leftarrow>groupby_sum2 key col1 col2 df. sint (snd (snd p))) = (\<Sum>r\<leftarrow>df. sint (col2 r))"
  using sum_sint_groups [where key=key and df=df and col=col2] by (simp add: groupby_sum2_def comp_def)

subsection \<open>Weekly sums\<close>

lemma weekly_teachers_eq:
  "sorts argsort \<Longrightarrow>
   weekly_teachers argsort df = groupby_sum week_start teachers_registered df"
  by (simp add: weekly_teachers_def sort_values_groups map_fst_groupby_sum)

lemma weekly_tutoring_calls_eq:
  "sorts argsort \<Longrightarrow>
   weekly_tutoring_calls argsort df = groupby_sum week_start tutoring_calls df"
  by (simp add: weekly_tutoring_calls_def sort_values_groups map_fst_groupby_sum)

lemma weekly_assessments_eq:
  "sorts argsort \<Longrightarrow>
   weekly_assessments argsort df =
     groupby_sum2 week_start baseline_assessments endline_assessments df"
  by (simp add: weekly_assessments_def sort_values_groups map_fst_groupby_sum2)

text \<open>
  C5, as it is stated, fails where a week's sum leaves the 64-bit range: of two
  rows of one week with \<open>2 ^ 62\<close> teachers each, the one output row holds
  \<open>- 2 ^ 63\<close>, and the column adds up to \<open>2 ^ 63\<close> over the input rows.
\<close>

theorem weekly_sums_overflow:
  "sorts (stable_argsort :: timestamp list \<Rightarrow> nat list) \<and>
   (\<Sum>p\<leftarrow>weekly_teachers stable_argsort big. sint (snd p)) = - 9223372036854775808 \<and>
   (\<Sum>r\<leftarrow>big. sint (teachers_registered r)) = 9223372036854775808"
proof -
  have "(\<Sum>p\<leftarrow>weekly_teachers stable_argsort big. sint (snd p)) = - 9223372036854775808 \<and>
   (\<Sum>r\<leftarrow>big. sint (teachers_registered r)) = 9223372036854775808"
    by code_simp
  with sorts_stable_argsort show ?thesis by blast
qed

text \<open>
  C5, amended. Whatever the sorting method, each weekly sum (teachers
  registered, tutoring calls, and the two assessment counts) has one row for
  each distinct \<open>week_start\<close> of its input, the rows in ascending order of
  \<open>week_start\<close>. Each summed column adds up over the output rows to what it adds
  up to over the input rows in the 64-bit arithmetic of the table, and also as
  integers when no week's sum of the column leaves the signed 64-bit range.
\<close>

theorem weekly_sums_wrapped:
  assumes "sorts argsort"
  shows
  "map fst (weekly_teachers argsort df) = sorted_list_of_set (week_start ` set df) \<and>
   length (weekly_teachers argsort df) = card (week_start ` set df) \<and>
   (\<Sum>p\<leftarrow>weekly_teachers argsort df. snd p) = (\<Sum>r\<leftarrow>df. teachers_registered r) \<and>
   (weeks_fit teachers_registered df \<longrightarrow>
      (\<Sum>p\<leftarrow>weekly_teachers argsort df. sint (snd p)) =
      (\<Sum>r\<leftarrow>df. sint (teachers_registered r))) \<and>
   map fst (weekly_tutoring_calls argsort df) = sorted_list_of_set (week_start ` set df) \<and>
   length (weekly_tutoring_calls argsort df) = card (week_start ` set df) \<and>
   (\<Sum>p\<leftarrow>weekly_tutoring_calls argsort df. snd p) = (\<Sum>r\<leftarrow>df. tutoring_calls r) \<and>
   (weeks_fit tutoring_calls df \<longrightarrow>
      (\<Sum>p\<leftarrow>weekly_tutoring_calls argsort df. sint (snd p)) =
      (\<Sum>r\<leftarrow>df. sint (tutoring_calls r))) \<and>
   map fst (weekly_assessments argsort df) = sorted_list_of_set (week_start ` set df) \<and>
   length (weekly_assessments argsort df) = card (week_start ` set df) \<and>
   (\<Sum>p\<leftarrow>weekly_assessments argsort df. fst (snd p)) = (\<Sum>r\<leftarrow>df. baseline_assessments r) \<and>
   (\<Sum>p\<leftarrow>weekly_assessments argsort df. snd (snd p)) = (\<Sum>r\<leftarrow>df. endline_assessments r) \<and>
   (weeks_fit baseline_assessments df \<longrightarrow>
      (\<Sum>p\<leftarrow>weekly_assessments argsort df. sint (fst (snd p))) =
      (\<Sum>r\<leftarrow>df. sint (baseline_assessments r))) \<and>
   (weeks_fit endline_assessments df \<longrightarrow>
      (\<Sum>p\<leftarrow>weekly_assessments argsort df. sint (snd (snd p))) =
      (\<Sum>r\<leftarrow>df. sint (endline_assessments r)))"
proof -
  have len: "length (groupby_sum week_start col df) = card (week_start ` set df)"
    for col :: "'a row \<Rightarrow> int64"
    using length_groupby_keys [of week_start df]
    by (simp flip: map_fst_groupby_sum [of week_start col df])
  have len2: "length (groupby_sum2 week_start c1 c2 df) = card (week_start ` set df)"
    for c1 c2 :: "'a row \<Rightarrow> int64"
    using length_groupby_keys [of week_start df]
    by (simp flip: map_fst_groupby_sum2 [of week_start c1 c2 df])
  show ?thesis
    by (simp add: weekly_teachers_eq [OF assms] weekly_tutoring_calls_eq [OF assms]
        weekly_assessments_eq [OF assms] map_fst_groupby_sum map_fst_groupby_sum2
        groupby_keys_sorted_list [symmetric] len len2 length_groupby_keys [symmetric]
        sum_snd_groupby_sum sum_groupby_sum2_fst sum_groupby_sum2_snd weeks_fit_def
        sum_sint_groupby_sum sum_sint_groupby_sum2_fst sum_sint_groupby_sum2_snd)
qed

lemma sample_weeks:
  "weeks_fit teachers_registered sample \<and>
   (\<Sum>r\<leftarrow>sample. sint (teachers_registered r)) = 11 \<and>
   sorted_list_of_set (week_start ` set sample) =
     [to_datetime 19723, to_datetime 19730, to_datetime 19737]"
  by code_simp

theorem weekly_sums_wrapped_witness:
  "sorts (stable_argsort :: timestamp list \<Rightarrow> nat list) \<and>
   weeks_fit teachers_registered sample \<and>
   map fst (weekly_teachers stable_argsort sample) =
     [to_datetime 19723, to_datetime 19730, to_datetime 19737] \<and>
   (\<Sum>p\<leftarrow>weekly_teachers stable_argsort sample. sint (snd p)) = 11"
proof -
  note w = weekly_sums_wrapped [OF sorts_stable_argsort, of sample]
  have keys: "map fst (weekly_teachers stable_argsort sample) =
              sorted_list_of_set (week_start ` set sample)"
    using w by (rule conjunct1)
  have "weeks_fit teachers_registered sample \<longrightarrow>
      (\<Sum>p\<leftarrow>weekly_teachers stable_argsort sample. sint (snd p)) =
      (\<Sum>r\<leftarrow>sample. sint (teachers_registered r))"
    using w by blast
  with sample_weeks keys sorts_stable_argsort show ?thesis by auto
qed



subsection \<open>The largest rows\<close>

lemma mset_insort_desc: "mset (insort_desc f x ys) = add_mset x (mset ys)"
  by (induction ys) simp_all

lemma mset_sort_desc: "mset (sort_desc f xs) = mset xs"
  by (induction xs) (simp_all add: sort_desc_def mset_insort_desc)

lemma set_insort_desc: "set (insort_desc f x ys) = insert x (set ys)"
  using mset_insort_desc [of f x ys, THEN arg_cong, of set_mset] by simp

lemma set_sort_desc: "set (sort_desc f xs) = set xs"
  using mset_sort_desc [of f xs, THEN arg_cong, of set_mset] by simp

lemma length_sort_desc: "length (sort_desc f xs) = length xs"
  using mset_sort_desc [of f xs, THEN arg_cong, of size] by simp

text \<open>
  Descending order of the column, and among equal values the order the rows had
  before (\<open>before\<close> relates each row to the rows after it).
\<close>

lemma sorted_wrt_insort_desc:
  assumes "sorted_wrt (\<lambda>a b. f b < f a \<or> f a = f b \<and> before a b) ys"
    and "\<forall>y\<in>set ys. before x y"
  shows "sorted_wrt (\<lambda>a b. f b < f a \<or> f a = f b \<and> before a b) (insort_desc f x ys)"
  using assms
proof (induction ys)
  case Nil
  then show ?case by simp
next
  case (Cons y ys)
  show ?case
  proof (cases "f y \<le> f x")
    case True
    have "f z \<le> f y" if "z \<in> set ys" for z
      using Cons.prems(1) that by auto
    with True Cons.prems show ?thesis by fastforce
  next
    case False
    with Cons show ?thesis by (auto simp: set_insort_desc)
  qed
qed

lemma sorted_wrt_sort_desc:
  "sorted_wrt before xs \<Longrightarrow>
   sorted_wrt (\<lambda>a b. f b < f a \<or> f a = f b \<and> before a b) (sort_desc f xs)"
proof (induction xs)
  case Nil
  then show ?case by (simp add: sort_desc_def)
next
  case (Cons x xs)
  then have "sorted_wrt (\<lambda>a b. f b < f a \<or> f a = f b \<and> before a b) (sort_desc f xs)"
    and "\<forall>y\<in>set (sort_desc f xs). before x y"
    by (simp_all add: set_sort_desc)
  then have "sorted_wrt (\<lambda>a b. f b < f a \<or> f a = f b \<and> before a b)
               (insort_desc f x (sort_desc f xs))"
    by (rule sorted_wrt_insort_desc)
  then show ?case by (simp add: sort_desc_def)
qed

lemma length_nlargest: "length (nlargest n f xs) = min n (length xs)"
  by (simp add: nlargest_def length_sort_desc min.commute)

lemma set_nlargest_subset: "set (nlargest n f xs) \<subseteq> set xs"
  using set_take_subset [of n "sort_desc f xs"] by (simp add: nlargest_def set_sort_desc)

lemma nlargest_before_rest:
  assumes "sorted_wrt before xs"
    and "a \<in> set (nlargest n f xs)" and "b \<in> set xs" and "b \<notin> set (nlargest n f xs)"
  shows "f b < f a \<or> f a = f b \<and> before a b"
proof -
  have split: "sort_desc f xs = nlargest n f xs @ drop n (sort_desc f xs)"
    by (simp add: nlargest_def)
  from assms(3) have "b \<in> set (nlargest n f xs @ drop n (sort_desc f xs))"
    by (simp only: split [symmetric] set_sort_desc)
  with assms(4) have b: "b \<in> set (drop n (sort_desc f xs))" by simp
  have "sorted_wrt (\<lambda>a b. f b < f a \<or> f a = f b \<and> before a b)
          (nlargest n f xs @ drop n (sort_desc f xs))"
    using sorted_wrt_sort_desc [OF assms(1), of f] by (simp only: split [symmetric])
  with assms(2) b show ?thesis
    by (auto simp: sorted_wrt_append)
qed

lemma distinct_map_nlargest:
  "distinct (map g xs) \<Longrightarrow> distinct (map g (nlargest n f xs))"
proof -
  assume "distinct (map g xs)"
  moreover have "mset (map g (sort_desc f xs)) = mset (map g xs)"
    by (simp add: mset_sort_desc)
  ultimately have "distinct (map g (sort_desc f xs))"
    by (metis mset_eq_imp_distinct_iff)
  then have "distinct (take n (map g (sort_desc f xs)))"
    by (rule distinct_take)
  then show ?thesis by (simp add: nlargest_def take_map)
qed

text \<open>The groups of a table come in ascending order of their keys, no key twice.\<close>

lemma groups_strictly_ascending:
  assumes "map fst G = groupby_keys key df"
  shows "sorted_wrt (\<lambda>a b. fst a < fst b) G"
proof -
  have "sorted_wrt (<) (groupby_keys key df)"
    using sorted_groupby_keys [of key df] distinct_groupby_keys [of key df]
    by (simp add: strict_sorted_iff)
  then have "sorted_wrt (<) (map fst G)"
    by (simp only: assms)
  then show ?thesis
    by (simp add: sorted_wrt_map)
qed


text \<open>Where no two values are equal, every sorting method gives the same order.\<close>

lemma sort_values_distinct:
  assumes "sorts argsort" and "distinct (map col df)"
  shows "sort_values argsort col df = sort_key col df"
proof -
  let ?a = "sort_values argsort col df" and ?b = "sort_key col df"
  have m: "mset (map col ?a) = mset (map col ?b)"
    by (simp add: mset_sort_values [OF assms(1)])
  have da: "distinct (map col ?a)"
    using assms(2) mset_sort_values [OF assms(1), of col df]
    by (metis mset_eq_imp_distinct_iff mset_map)
  have db: "distinct (map col ?b)"
    using assms(2) by (metis mset_eq_imp_distinct_iff mset_map mset_sort)
  have "set (map col ?a) = set (map col ?b)"
    using m by (rule mset_eq_setD)
  with da db have eq: "map col ?a = map col ?b"
    using sorted_sort_values [OF assms(1), of col df]
    by (intro sorted_distinct_set_unique) auto
  have "inj_on col (set ?a \<union> set ?b)"
    using assms(2) by (simp add: set_sort_values [OF assms(1)] distinct_map)
  with eq show ?thesis
    by (simp add: inj_on_map_eq_map)
qed

subsection \<open>Top schools\<close>


lemma groupby_mean2_member:
  "p \<in> set (groupby_mean2 fmean key col1 col2 df) \<longleftrightarrow>
   fst p \<in> key ` set df \<and>
   snd p = (fmean (map col1 (group_rows key (fst p) df)),
            fmean (map col2 (group_rows key (fst p) df)))"
  by (cases p) (auto simp: groupby_mean2_def set_groupby_keys)






lemma calls_table_distinct:
  "distinct (map (\<lambda>p. sint (snd p))
     (nlargest 10 (\<lambda>p. sint (snd p)) (groupby_sum school tutoring_calls calls_table)))"
  by code_simp

lemma calls_table_top_any:
  "sorts argsort \<Longrightarrow>
   top_schools_tutoring argsort calls_table = top_schools_tutoring stable_argsort calls_table"
  by (simp add: top_schools_tutoring_def sort_values_distinct calls_table_distinct
      sorts_stable_argsort)





lemma big_calls_distinct:
  "distinct (map (\<lambda>p. sint (snd p))
     (nlargest 10 (\<lambda>p. sint (snd p)) (groupby_sum school tutoring_calls big_calls)))"
  by code_simp

lemma big_calls_top_any:
  "sorts argsort \<Longrightarrow>
   top_schools_tutoring argsort big_calls = top_schools_tutoring stable_argsort big_calls"
  by (simp add: top_schools_tutoring_def sort_values_distinct big_calls_distinct
      sorts_stable_argsort)

subsection \<open>Learning levels\<close>

text \<open>
  C8. The comparison by school shows 20 schools, or all of them when there are
  fewer, each with the means of its rows; every school it leaves out has a mean
  baseline level at most that of every school shown. The comparisons by district
  and by block have a row for every district and for every block of the table.
\<close>

theorem level_df_school_top20:
  "length (level_df fmean ''School'' df) = min 20 (card (school ` set df)) \<and>
   distinct (map fst (level_df fmean ''School'' df)) \<and>
   (\<forall>p\<in>set (level_df fmean ''School'' df).
      fst p \<in> school ` set df \<and>
      snd p = (fmean (map baseline_average_level (group_rows school (fst p) df)),
               fmean (map endline_average_level (group_rows school (fst p) df)))) \<and>
   (\<forall>p\<in>set (level_df fmean ''School'' df).
      \<forall>s\<in>school ` set df - fst ` set (level_df fmean ''School'' df).
        fmean (map baseline_average_level (group_rows school s df)) \<le> fst (snd p)) \<and>
   map fst (level_df fmean ''District'' df) = sorted_list_of_set (district ` set df) \<and>
   map fst (level_df fmean ''Block'' df) = sorted_list_of_set (block ` set df)"
proof -
  let ?G = "groupby_mean2 fmean school baseline_average_level endline_average_level df"
  let ?T = "level_df fmean ''School'' df"
  let ?b = "\<lambda>s. fmean (map baseline_average_level (group_rows school s df))"
  let ?e = "\<lambda>s. fmean (map endline_average_level (group_rows school s df))"
  have T: "?T = nlargest 20 (\<lambda>g. fst (snd g)) ?G"
    by (simp add: level_df_def)
  have lenG: "length ?G = card (school ` set df)"
    using length_groupby_keys [of school df]
    by (simp flip: map_fst_groupby_mean2
        [of fmean school baseline_average_level endline_average_level df])
  have len: "length ?T = min 20 (card (school ` set df))"
    by (simp add: T length_nlargest lenG)
  have "distinct (map fst ?G)"
    by (simp add: map_fst_groupby_mean2 distinct_groupby_keys)
  then have dist: "distinct (map fst ?T)"
    unfolding T by (rule distinct_map_nlargest)
  have mem: "fst p \<in> school ` set df \<and> snd p = (?b (fst p), ?e (fst p))"
    if "p \<in> set ?T" for p
  proof -
    from that have "p \<in> set ?G"
      using set_nlargest_subset [of 20 "\<lambda>g. fst (snd g)" ?G] by (auto simp: T)
    then show ?thesis by (simp add: groupby_mean2_member)
  qed
  have asc: "sorted_wrt (\<lambda>a b. fst a < fst b) ?G"
    by (rule groups_strictly_ascending) (rule map_fst_groupby_mean2)
  have out: "?b s \<le> fst (snd p)"
    if p: "p \<in> set ?T" and s: "s \<in> school ` set df - fst ` set ?T" for p s
  proof -
    have b: "(s, ?b s, ?e s) \<in> set ?G"
      using s by (simp add: groupby_mean2_member)
    have nb: "(s, ?b s, ?e s) \<notin> set (nlargest 20 (\<lambda>g. fst (snd g)) ?G)"
      using s by (force simp: T)
    from p have a: "p \<in> set (nlargest 20 (\<lambda>g. fst (snd g)) ?G)" by (simp add: T)
    from nlargest_before_rest [OF asc a b nb] show ?thesis by auto
  qed
  have d: "map fst (level_df fmean ''District'' df) = sorted_list_of_set (district ` set df)"
    by (simp add: level_df_def map_fst_groupby_mean2 groupby_keys_sorted_list)
  have bl: "map fst (level_df fmean ''Block'' df) = sorted_list_of_set (block ` set df)"
    by (simp add: level_df_def map_fst_groupby_mean2 groupby_keys_sorted_list)
  from len dist mem out d bl show ?thesis by blast
qed

lemma levels_table_shown:
  "level_df mean ''School'' levels_table =
     [(''S21'', 21, 22), (''S20'', 20, 21), (''S19'', 19, 20), (''S18'', 18, 19),
      (''S17'', 17, 18), (''S16'', 16, 17), (''S15'', 15, 16), (''S14'', 14, 15),
      (''S13'', 13, 14), (''S12'', 12, 13), (''S11'', 11, 12), (''S10'', 10, 11),
      (''S09'', 9, 9), (''S08'', 8, 9), (''S07'', 7, 8), (''S06'', 6, 7), (''S04'', 5, 5),
      (''S01'', 4, 5), (''S05'', 4, 5), (''S03'', 2, 3)]"
  by code_simp

lemma levels_table_S02:
  "''S02'' \<in> school ` set levels_table \<and>
   mean (map baseline_average_level (group_rows school ''S02'' levels_table)) = 1"
  by code_simp

theorem level_df_school_top20_witness:
  "(''S03'', 2, 3) \<in> set (level_df mean ''School'' levels_table) \<and>
   ''S02'' \<in> school ` set levels_table - fst ` set (level_df mean ''School'' levels_table) \<and>
   mean (map baseline_average_level (group_rows school ''S02'' levels_table)) \<le> 2 \<and>
   length (level_df mean ''School'' levels_table) =
     min 20 (card (school ` set levels_table)) \<and>
   map fst (level_df mean ''District'' levels_table) =
     sorted_list_of_set (district ` set levels_table)"
proof -
  note top = level_df_school_top20 [of mean levels_table]
  have p: "(''S03'', 2, 3) \<in> set (level_df mean ''School'' levels_table)"
    by (simp add: levels_table_shown)
  have s: "''S02'' \<in> school ` set levels_table -
             fst ` set (level_df mean ''School'' levels_table)"
    using levels_table_S02 by (simp add: levels_table_shown)
  have "\<forall>p\<in>set (level_df mean ''School'' levels_table).
      \<forall>s\<in>school ` set levels_table - fst ` set (level_df mean ''School'' levels_table).
        mean (map baseline_average_level (group_rows school s levels_table)) \<le> fst (snd p)"
    using top by blast
  from this p s
  have le: "mean (map baseline_average_level (group_rows school ''S02'' levels_table)) \<le> 2"
    by fastforce
  have len: "length (level_df mean ''School'' levels_table) =
               min 20 (card (school ` set levels_table))"
    using top by (rule conjunct1)
  have d: "map fst (level_df mean ''District'' levels_table) =
             sorted_list_of_set (district ` set levels_table)"
    using top by blast
  from p s le len d show ?thesis by blast
qed

subsection \<open>Pivot tables\<close>

lemma pivot_data_not_numeric:
  "issubdtype_number (column_dtype text_dtype pivot_values) = Inr False \<Longrightarrow>
   pivot_data fsum to_float text_dtype pivot_index pivot_columns pivot_values df =
     Inr (Inl (Warning values_field_warning))"
  by (simp add: pivot_data_def)

text \<open>
  C2. The explorer's table for two rows, one of district A in the week of
  2024-01-01 and one of district B in the week of 2024-01-08, with \<open>week_start\<close>
  as rows, \<open>district\<close> as columns and \<open>teachers_registered\<close> as values: the cells of
  the two pairs of labels that no row has are empty, not 0, and the two sums
  have become floating-point numbers.
\<close>

theorem pivot_data_missing_cell:
  "pivot_data fsum to_float text_dtype Week_start District Teachers_registered two_rows =
     Inr (Inr \<lparr>row_labels = [Timev (to_datetime 19723), Timev (to_datetime 19730)],
          col_labels = [Str ''A'', Str ''B''],
          cells = [[Some (Floatv (to_float 5)), None],
                   [None, Some (Floatv (to_float 3))]]\<rparr>)"
  by code_simp

text \<open>No row of that table is of district B in the first week.\<close>

lemma two_rows_no_match:
  "group_rows (\<lambda>r. (week_start r, district r)) (to_datetime 19723, ''B'') two_rows = []"
  by code_simp

text \<open>The pivot of the teacher registrations, on the same rows, holds 0 there.\<close>

lemma pivot_df_two_rows:
  "pivot_df stable_argsort to_float ''District'' two_rows =
     Inr \<lparr>row_labels = [to_datetime 19723, to_datetime 19730], col_labels = [''A'', ''B''],
          cells = [[Floatv (to_float 5), Floatv (to_float 0)],
                   [Floatv (to_float 0), Floatv (to_float 3)]]\<rparr>"
  by code_simp

text \<open>
  The explorer's table of a numeric column and three different fields: a cell
  holds the sum over the rows of its two labels where there are such rows, and
  nothing where there is none.
\<close>

lemma pivot_data_cells:
  assumes "issubdtype_number (column_dtype text_dtype pivot_values) = Inr True"
    and "pivot_index \<noteq> pivot_columns" and "pivot_values \<noteq> pivot_index"
    and "pivot_values \<noteq> pivot_columns"
  shows "pivot_data fsum to_float text_dtype pivot_index pivot_columns pivot_values df =
     Inr (Inr \<lparr>row_labels = groupby_keys (get pivot_index) df,
          col_labels = groupby_keys (get pivot_columns) df,
          cells = promote (to_float64 to_float)
            (map (\<lambda>a. map (\<lambda>b.
                   (if \<exists>r\<in>set df. get pivot_index r = a \<and> get pivot_columns r = b
                    then Some (np_sum fsum (column_dtype text_dtype pivot_values)
                           (map (get pivot_values)
                             (filter (\<lambda>r. get pivot_index r = a \<and> get pivot_columns r = b)
                                df)))
                    else None))
                   (groupby_keys (get pivot_columns) df))
                 (groupby_keys (get pivot_index) df))\<rparr>)"
  using assms
  by (auto simp: pivot_data_def pivot_table_def group_rows_def filter_empty_conv
      intro!: arg_cong [where f="promote (to_float64 to_float)"])

lemma map_of_keyed:
  "map_of (map (\<lambda>k. (k, f k)) ks) k = (if k \<in> set ks then Some (f k) else None)"
  by (induction ks) auto

lemma sorted_remdups_eq:
  "set xs = set ys \<Longrightarrow> sort (remdups xs) = sort (remdups ys)"
  by (rule sorted_distinct_set_unique) simp_all

lemma group_data_eq:
  "sorts argsort \<Longrightarrow>
   group_data argsort opt df =
     groupby_sum (\<lambda>r. (week_start r, dimension opt r)) teachers_registered df"
  by (simp add: group_data_def sort_values_groups map_fst_groupby_sum)

text \<open>
  What \<^verbatim>\<open>pivot_df\<close> holds: each cell is the sum over the rows of its week and
  group, an integer when every week has rows of every group and a
  floating-point number otherwise.
\<close>

lemma pivot_df_cells:
  assumes "sorts argsort"
  shows "pivot_df argsort to_float opt df =
     Inr \<lparr>row_labels = groupby_keys week_start df,
          col_labels = groupby_keys (dimension opt) df,
          cells = map (\<lambda>w. map (\<lambda>d.
                    (if \<forall>w\<in>week_start ` set df. \<forall>d\<in>dimension opt ` set df.
                          \<exists>r\<in>set df. week_start r = w \<and> dimension opt r = d
                     then Intv (series_sum (map teachers_registered
                            (group_rows (\<lambda>r. (week_start r, dimension opt r)) (w, d) df)))
                     else Floatv (to_float (series_sum (map teachers_registered
                            (group_rows (\<lambda>r. (week_start r, dimension opt r)) (w, d) df))))))
                        (groupby_keys (dimension opt) df))
                    (groupby_keys week_start df)\<rparr>"
proof -
  let ?key = "\<lambda>r. (week_start r, dimension opt r)"
  let ?sum = "\<lambda>k. series_sum (map teachers_registered (group_rows ?key k df))"
  let ?long = "map (\<lambda>(k, v). (k, Intv v :: 'a cell)) (group_data argsort opt df)"
  let ?rows = "groupby_keys week_start df" and ?cols = "groupby_keys (dimension opt) df"
  let ?raw = "map (\<lambda>w. map (\<lambda>d. map_of ?long (w, d)) ?cols) ?rows"
  let ?full = "\<forall>w\<in>week_start ` set df. \<forall>d\<in>dimension opt ` set df.
                  \<exists>r\<in>set df. week_start r = w \<and> dimension opt r = d"
  have long: "?long = map (\<lambda>k. (k, Intv (?sum k))) (groupby_keys ?key df)"
    by (simp add: group_data_eq [OF assms] groupby_sum_def comp_def)
  have keys: "map fst ?long = groupby_keys ?key df"
    by (simp add: long comp_def)
  have rows: "sort (remdups (map (\<lambda>r. fst (fst r)) ?long)) = ?rows"
    unfolding groupby_keys_def
    by (rule sorted_remdups_eq) (force simp: long set_groupby_keys)
  have cols: "sort (remdups (map (\<lambda>r. snd (fst r)) ?long)) = ?cols"
    unfolding groupby_keys_def
    by (rule sorted_remdups_eq) (force simp: long set_groupby_keys)
  have look: "map_of ?long (w, d) =
      (if (w, d) \<in> ?key ` set df then Some (Intv (?sum (w, d))) else None)" for w d
    by (simp only: long map_of_keyed set_groupby_keys)
  have empty: "?sum (w, d) = 0" if "(w, d) \<notin> ?key ` set df" for w d
  proof -
    from that have "group_rows ?key (w, d) df = []"
      by (auto simp: group_rows_def filter_empty_conv)
    then show ?thesis by (simp add: series_sum_def)
  qed
  have full: "?full \<longleftrightarrow>
      (\<forall>w\<in>week_start ` set df. \<forall>d\<in>dimension opt ` set df. (w, d) \<in> ?key ` set df)"
    by (simp add: image_iff Bex_def) metis
  have gap: "list_ex (list_ex (\<lambda>c. c = None)) ?raw \<longleftrightarrow> \<not> ?full"
    unfolding full by (auto simp: list_ex_iff look set_groupby_keys)
  have piv: "pivot (to_float64 to_float) ?long =
      Inr \<lparr>row_labels = ?rows, col_labels = ?cols,
           cells = promote (to_float64 to_float) ?raw\<rparr>"
    by (simp only: pivot_def keys distinct_groupby_keys rows cols not_True_eq_False if_False)
  show ?thesis
  proof (cases ?full)
    case True
    then have "promote (to_float64 to_float) ?raw = ?raw"
      using gap by (simp add: promote_def)
    moreover have "(w, d) \<in> ?key ` set df"
      if "w \<in> set ?rows" "d \<in> set ?cols" for w d
      using True that unfolding full by (auto simp: set_groupby_keys)
    ultimately show ?thesis
      using True by (simp add: pivot_df_def piv fillna_def look)
  next
    case False
    then have "promote (to_float64 to_float) ?raw =
               map (map (map_option (to_float64 to_float))) ?raw"
      using gap by (simp add: promote_def)
    then show ?thesis
      using False by (simp add: pivot_df_def piv fillna_def look empty comp_def)
  qed
qed

section \<open>Export and loading\<close>















text \<open>
  When a text column, none of whose values is a text for a missing value, is read
  as text again: when it has no value, or has a value that is not read as an
  integer, one that is not read as a floating-point number and one that is not
  read as a truth value.
\<close>

lemma present_all:
  "list_all (\<lambda>s. s \<notin> set (na_values lib)) vals \<Longrightarrow> present lib (map Some vals) = vals"
  by (induction vals) (simp_all add: present_def List.map_filter_simps missing_def)

lemma no_missing:
  "list_all (\<lambda>s. s \<notin> set (na_values lib)) vals \<Longrightarrow> \<not> list_ex (missing lib) (map Some vals)"
  by (induction vals) (simp_all add: missing_def)

lemma stays_text_iff:
  "stays_text lib vals \<longleftrightarrow>
     list_all (\<lambda>s. s \<notin> set (na_values lib)) vals \<and>
     (vals = [] \<or>
      list_ex (\<lambda>s. read_int lib s = None) vals \<and>
      list_ex (\<lambda>s. read_float lib s = None) vals \<and>
      list_ex (\<lambda>s. read_bool lib s = None) vals)"
proof (cases "list_all (\<lambda>s. s \<notin> set (na_values lib)) vals")
  case True
  show ?thesis
    using True present_all [OF True] no_missing [OF True]
    by (auto simp: stays_text_def infer_def list_all_iff list_ex_iff)
next
  case False
  then show ?thesis by (simp add: stays_text_def)
qed







end
